theory Spec2Isabelle
  imports Complex_Main "HOL-Library.Word" "HOL-Library.Stream" "HOL-Library.Log_Nat"
begin

unbundle bit_operations_syntax

section \<open>The SHT31 driver \<open>drivers/sht31.hpp\<close>\<close>

subsection \<open>Machine types\<close>

text \<open>
  The driver is built against \<open>mbed.h\<close>, that is for 32-bit ARM: \<open>int\<close> has 32 bits,
  \<open>uint8_t\<close> 8 and \<open>uint16_t\<close> 16, and plain \<open>char\<close> is an unsigned 8-bit type (ARM
  EABI). Every operand of \<open><<\<close>, \<open>|\<close>, \<open>&\<close>, \<open>^\<close> and \<open>!=\<close> is promoted to \<open>int\<close> first, and
  an assignment to a narrower variable keeps the low bits; the promotions and the
  truncations are written out below.
\<close>

type_synonym u8 = "8 word"
type_synonym u16 = "16 word"
type_synonym c_int = "32 word"
type_synonym PinName = int

definition char_to_int :: "u8 \<Rightarrow> c_int" where
  "char_to_int c = ucast c"

definition uint8_to_int :: "u8 \<Rightarrow> c_int" where
  "uint8_to_int b = ucast b"

definition uint16_to_int :: "u16 \<Rightarrow> c_int" where
  "uint16_to_int w = ucast w"

definition int_to_char :: "c_int \<Rightarrow> u8" where
  "int_to_char i = ucast i"

definition int_to_uint8 :: "c_int \<Rightarrow> u8" where
  "int_to_uint8 i = ucast i"

definition int_to_uint16 :: "c_int \<Rightarrow> u16" where
  "int_to_uint16 i = ucast i"

subsection \<open>Double arithmetic\<close>

text \<open>
  A finite \<open>double\<close> is modelled by the real number it denotes. Each arithmetic
  operation of C on doubles returns the exact result rounded to the nearest double,
  ties to the even significand (IEEE 754 binary64: 53 significant bits, least normal
  exponent -1022). \<open>ilog2 x\<close> is the binary exponent of a non-zero \<open>x\<close>, computed from
  bit lengths. Overflow is left out of \<open>round_double\<close>: no value of this driver
  exceeds \<open>2 ^ 24\<close> in magnitude (see \<open>conversion_operands_small\<close>).
\<close>

type_synonym double = real

definition ilog2 :: "real \<Rightarrow> int" where
  "ilog2 x =
     (if 1 \<le> \<bar>x\<bar> then int (floorlog 2 (nat \<lfloor>\<bar>x\<bar>\<rfloor>)) - 1
      else - int (floorlog 2 (nat (\<lceil>1 / \<bar>x\<bar>\<rceil> - 1))))"

definition round_half_even :: "real \<Rightarrow> int" where
  "round_half_even y =
     (if y - of_int \<lfloor>y\<rfloor> < 1 / 2 then \<lfloor>y\<rfloor>
      else if 1 / 2 < y - of_int \<lfloor>y\<rfloor> then \<lfloor>y\<rfloor> + 1
      else if even \<lfloor>y\<rfloor> then \<lfloor>y\<rfloor> else \<lfloor>y\<rfloor> + 1)"

definition ulp_of :: "real \<Rightarrow> real" where
  "ulp_of x = 2 powi (max (ilog2 x) (- 1022) - 52)"

definition round_double :: "real \<Rightarrow> double" where
  "round_double x =
     (if x = 0 then 0 else of_int (round_half_even (x / ulp_of x)) * ulp_of x)"

definition double_add :: "double \<Rightarrow> double \<Rightarrow> double" where
  "double_add a b = round_double (a + b)"

definition double_mul :: "double \<Rightarrow> double \<Rightarrow> double" where
  "double_mul a b = round_double (a * b)"

definition double_div :: "double \<Rightarrow> double \<Rightarrow> double" where
  "double_div a b = round_double (a / b)"

definition uint16_to_double :: "u16 \<Rightarrow> double" where
  "uint16_to_double w = real (unat w)"

subsection \<open>Command opcodes and the device address\<close>

definition SHT31_DEFAULT_ADDR :: c_int where
  "SHT31_DEFAULT_ADDR = 0x44"

definition SHT31_MEAS_HIGHREP :: c_int where
  "SHT31_MEAS_HIGHREP = 0x2400"

definition SHT31_READSTATUS :: c_int where
  "SHT31_READSTATUS = 0xF32D"

definition SHT31_CLEARSTATUS :: c_int where
  "SHT31_CLEARSTATUS = 0x3041"

definition SHT31_SOFTRESET :: c_int where
  "SHT31_SOFTRESET = 0x30A2"

subsection \<open>The driver object and its collaborators\<close>

text \<open>
  The receive buffer handed to \<open>I2C::read\<close> is either a local array
  (\<open>char readbuffer[6]\<close>) or the value of a pointer variable that was declared and
  never assigned (\<open>char *val;\<close> in \<open>read_status\<close>), which designates no object.
\<close>

datatype buffer = Local_array nat | Uninitialized_pointer

text \<open>
  What the driver asks of its collaborators, in order: a bus write (address and bytes),
  a bus read (address, receive buffer, length) and a blocking delay in milliseconds.
\<close>

datatype event =
    I2C_write c_int "u8 list"
  | I2C_read c_int buffer nat
  | Wait_ms int

text \<open>
  The fields \<open>_i2c_address\<close>, \<open>_humidity\<close> and \<open>_temperature\<close> of the class, the pins of
  its \<open>I2C _i2c\<close> member, the \<open>trace\<close> of the requests made so far, and \<open>rx\<close>, the
  bytes the bus will deliver to the coming reads.
\<close>

record sht31 =
  i2c_pins :: "PinName \<times> PinName"
  i2c_address :: c_int
  humidity :: double
  temperature :: double
  trace :: "event list"
  rx :: "u8 stream"

text \<open>
  Modelled from the spec: the bus transport \<open>write(address, bytes)\<close> of mbed's \<open>I2C\<close>
  class, which is not part of the repository. The request is recorded.
\<close>

definition i2c_write :: "c_int \<Rightarrow> u8 list \<Rightarrow> sht31 \<Rightarrow> sht31" where
  "i2c_write address buf s = s\<lparr>trace := trace s @ [I2C_write address buf]\<rparr>"

text \<open>
  Modelled from the spec: the bus transport \<open>read(address, length) -> bytes\<close> of mbed's
  \<open>I2C\<close> class, which is not part of the repository. The bus delivers the next \<open>n\<close>
  bytes, which the transport stores through the buffer pointer it was given.
\<close>

definition i2c_read :: "c_int \<Rightarrow> buffer \<Rightarrow> nat \<Rightarrow> sht31 \<Rightarrow> u8 list \<times> sht31" where
  "i2c_read address buf n s =
     (stake n (rx s),
      s\<lparr>trace := trace s @ [I2C_read address buf n], rx := sdrop n (rx s)\<rparr>)"

text \<open>
  Modelled from the spec: the platform's blocking delay \<open>wait(milliseconds)\<close>
  (\<open>wait_ms\<close> of mbed), which is not part of the repository.
\<close>

definition wait_ms :: "int \<Rightarrow> sht31 \<Rightarrow> sht31" where
  "wait_ms ms s = s\<lparr>trace := trace s @ [Wait_ms ms]\<rparr>"

text \<open>
  Reading \<open>*val\<close> after the transport stored the delivered bytes through \<open>val\<close>: the
  first byte when \<open>val\<close> is an array that holds them, no determinate value when \<open>val\<close>
  designates no object.
\<close>

fun deref :: "buffer \<Rightarrow> u8 list \<Rightarrow> u8 option" where
  "deref Uninitialized_pointer stored = None"
| "deref (Local_array n) stored =
     (if n = 0 \<or> stored = [] then None else Some (hd stored))"

subsection \<open>\<open>write_command\<close>, \<open>reset\<close>, \<open>read_status\<close>\<close>

definition write_command :: "u16 \<Rightarrow> sht31 \<Rightarrow> sht31" where
  "write_command cmd s =
     (let buf0 = int_to_char (drop_bit 8 (uint16_to_int cmd));
          buf1 = int_to_char (uint16_to_int cmd AND 0xFF)
      in i2c_write (i2c_address s) [buf0, buf1] s)"

definition reset :: "sht31 \<Rightarrow> sht31" where
  "reset s = wait_ms 10 (write_command (int_to_uint16 SHT31_SOFTRESET) s)"

text \<open>
  \<open>read_status\<close>: \<open>val\<close> is declared without an initialiser and never assigned. The
  result is \<open>None\<close> when the status word is built from indeterminate bytes. C gives
  no meaning to the stores and loads through \<open>val\<close>; the model records the two reads
  with the buffer they were given and goes on, taking the stray stores to hit nothing
  the driver uses.
\<close>

definition read_status :: "sht31 \<Rightarrow> u16 option \<times> sht31" where
  "read_status s =
     (let val = Uninitialized_pointer;
          s1 = write_command (int_to_uint16 SHT31_READSTATUS) s;
          (stored_msb, s2) = i2c_read (i2c_address s1) val 1 s1;
          stat = map_option (\<lambda>c. int_to_uint16 (push_bit 8 (char_to_int c)))
                   (deref val stored_msb);
          (stored_lsb, s3) = i2c_read (i2c_address s2) val 1 s2;
          stat = (case (stat, deref val stored_lsb) of
                    (Some st, Some c) \<Rightarrow>
                      Some (int_to_uint16 (uint16_to_int st OR char_to_int c))
                  | _ \<Rightarrow> None)
      in (stat, s3))"

subsection \<open>\<open>crc8\<close>\<close>

definition POLYNOMIAL :: u8 where
  "POLYNOMIAL = 0x31"

text \<open>
  The body of the inner loop,
  \<open>crc = (crc & 0x80) ? (crc << 1) ^ POLYNOMIAL : (crc << 1)\<close>, computed on \<open>int\<close> and
  truncated by the assignment to the \<open>uint8_t\<close> register.
\<close>

definition crc8_shift :: "u8 \<Rightarrow> u8" where
  "crc8_shift crc =
     (if uint8_to_int crc AND 0x80 \<noteq> 0
      then int_to_uint8 (push_bit 1 (uint8_to_int crc) XOR uint8_to_int POLYNOMIAL)
      else int_to_uint8 (push_bit 1 (uint8_to_int crc)))"

text \<open>The inner loop \<open>for (int i = 8; i; --i)\<close>.\<close>

fun crc8_bits :: "nat \<Rightarrow> u8 \<Rightarrow> u8" where
  "crc8_bits 0 crc = crc"
| "crc8_bits (Suc i) crc = crc8_bits i (crc8_shift crc)"

text \<open>
  The outer loop \<open>for (int j = len; j; --j)\<close> with \<open>crc ^= *data++\<close>; \<open>data\<close> is the
  memory from the pointer on. Reading past its end is outside the model (both callers
  pass two bytes of a six-byte array).
\<close>

fun crc8_bytes :: "u8 list \<Rightarrow> nat \<Rightarrow> u8 \<Rightarrow> u8" where
  "crc8_bytes data 0 crc = crc"
| "crc8_bytes data (Suc j) crc =
     crc8_bytes (tl data) j (crc8_bits 8 (int_to_uint8 (uint8_to_int crc XOR uint8_to_int (hd data))))"

definition crc8 :: "u8 list \<Rightarrow> nat \<Rightarrow> u8" where
  "crc8 data len = crc8_bytes data len 0xFF"

subsection \<open>\<open>read_temperature_humidity\<close>\<close>

definition read_temperature_humidity :: "sht31 \<Rightarrow> bool \<times> sht31" where
  "read_temperature_humidity s =
     (let s1 = write_command (int_to_uint16 SHT31_MEAS_HIGHREP) s;
          s2 = wait_ms 50 s1;
          (readbuffer, s3) = i2c_read (i2c_address s2) (Local_array 6) 6 s2;
          temperature_word =
            int_to_uint16 (push_bit 8 (char_to_int (readbuffer ! 0)) OR char_to_int (readbuffer ! 1))
      in if char_to_int (readbuffer ! 2) \<noteq> uint8_to_int (crc8 readbuffer 2) then (False, s3)
         else
           let humidity_word =
                 int_to_uint16 (push_bit 8 (char_to_int (readbuffer ! 3)) OR char_to_int (readbuffer ! 4))
           in if char_to_int (readbuffer ! 5) \<noteq> uint8_to_int (crc8 (drop 3 readbuffer) 2)
              then (False, s3)
              else
                (True,
                 s3\<lparr>temperature :=
                      double_add (- 45)
                        (double_div (double_mul (uint16_to_double temperature_word) 175) 0xFFFF),
                    humidity :=
                      double_div (double_mul (uint16_to_double humidity_word) 100) 0xFFFF\<rparr>))"

subsection \<open>The public interface\<close>

text \<open>
  A call of an accessor either returns a value or ends in the fatal-error collaborator;
  both carry the state reached.
\<close>

datatype outcome = Returned double sht31 | Halted string sht31

text \<open>
  Modelled from the spec: the fatal-error reporter \<open>halt(message)\<close>
  (\<open>cadmium::embedded::embedded_error::hard_fault\<close>), which is not part of the
  repository: it is given the message, terminates further execution and does not
  return.
\<close>

definition hard_fault :: "string \<Rightarrow> sht31 \<Rightarrow> outcome" where
  "hard_fault msg s = Halted msg s"

text \<open>
  The constructor \<open>sht31(PinName sda, PinName scl) : _i2c(sda, scl)\<close>. It leaves
  \<open>_humidity\<close> and \<open>_temperature\<close> uninitialised: \<open>h0\<close> and \<open>t0\<close> are whatever they hold;
  \<open>device\<close> is what the bus will deliver. The value of \<open>read_status\<close> is dropped.
\<close>

definition sht31_ctor :: "PinName \<Rightarrow> PinName \<Rightarrow> double \<Rightarrow> double \<Rightarrow> u8 stream \<Rightarrow> sht31" where
  "sht31_ctor sda scl h0 t0 device =
     (let s = \<lparr>i2c_pins = (sda, scl), i2c_address = 0, humidity = h0, temperature = t0,
                trace = [], rx = device\<rparr>;
          s = s\<lparr>i2c_address := push_bit 1 SHT31_DEFAULT_ADDR\<rparr>;
          s = reset s
      in snd (read_status s))"

definition read_temperature :: "sht31 \<Rightarrow> outcome" where
  "read_temperature s =
     (case read_temperature_humidity s of
        (ok, s') \<Rightarrow>
          if \<not> ok then hard_fault ''SHT31 TEMPERATURE CRC FAIL'' s'
          else Returned (temperature s') s')"

definition read_humidity :: "sht31 \<Rightarrow> outcome" where
  "read_humidity s =
     (case read_temperature_humidity s of
        (ok, s') \<Rightarrow>
          if \<not> ok then hard_fault ''SHT31 HUMIDITY CRC FAIL'' s'
          else Returned (humidity s') s')"

text \<open>
  An execution of a client: the accessors it calls, in order. Nothing runs after a
  fatal error.
\<close>

datatype call = Call_read_temperature | Call_read_humidity

fun do_call :: "call \<Rightarrow> sht31 \<Rightarrow> outcome" where
  "do_call Call_read_temperature s = read_temperature s"
| "do_call Call_read_humidity s = read_humidity s"

fun run :: "call list \<Rightarrow> sht31 \<Rightarrow> sht31" where
  "run [] s = s"
| "run (c # cs) s =
     (case do_call c s of Returned v s' \<Rightarrow> run cs s' | Halted msg s' \<Rightarrow> s')"

section \<open>The specification's vocabulary\<close>

text \<open>
  The checksum as the specification words it: an 8-bit register that starts at
  \<open>0xFF\<close>; each input byte is XORed into it, then eight times: if the high bit of the
  register is set, shift left and XOR with the polynomial \<open>0x31\<close>, else just shift
  left, the register being truncated to 8 bits at each step. No final XOR and no
  reflection of input or output.
\<close>

definition crc8_step_spec :: "u8 \<Rightarrow> u8" where
  "crc8_step_spec r = (if bit r 7 then push_bit 1 r XOR 0x31 else push_bit 1 r)"

definition crc8_spec :: "u8 list \<Rightarrow> u8" where
  "crc8_spec bytes = foldl (\<lambda>r b. (crc8_step_spec ^^ 8) (r XOR b)) 0xFF bytes"

text \<open>
  A 16-bit measurement word from its two bytes, most significant first, and the
  checks on a six-byte response \<open>[tempMSB, tempLSB, crc, humMSB, humLSB, crc]\<close>.
\<close>

definition word_of_bytes :: "u8 \<Rightarrow> u8 \<Rightarrow> nat" where
  "word_of_bytes msb lsb = 256 * unat msb + unat lsb"

definition temperature_word_of :: "u8 list \<Rightarrow> nat" where
  "temperature_word_of frame = word_of_bytes (frame ! 0) (frame ! 1)"

definition humidity_word_of :: "u8 list \<Rightarrow> nat" where
  "humidity_word_of frame = word_of_bytes (frame ! 3) (frame ! 4)"

definition temperature_crc_ok :: "u8 list \<Rightarrow> bool" where
  "temperature_crc_ok frame \<longleftrightarrow> frame ! 2 = crc8 [frame ! 0, frame ! 1] 2"

definition humidity_crc_ok :: "u8 list \<Rightarrow> bool" where
  "humidity_crc_ok frame \<longleftrightarrow> frame ! 5 = crc8 [frame ! 3, frame ! 4] 2"

text \<open>
  The conversion formulas of the specification, over the reals, and the same formulas
  with each operation carried out in double arithmetic.
\<close>

definition temperature_C :: "nat \<Rightarrow> real" where
  "temperature_C word = - 45 + 175 * real word / 65535"

definition humidity_pct :: "nat \<Rightarrow> real" where
  "humidity_pct word = 100 * real word / 65535"

definition temperature_C_double :: "nat \<Rightarrow> double" where
  "temperature_C_double word =
     double_add (- 45) (double_div (double_mul 175 (real word)) 65535)"

definition humidity_pct_double :: "nat \<Rightarrow> double" where
  "humidity_pct_double word = double_div (double_mul 100 (real word)) 65535"

text \<open>A 16-bit opcode as it goes on the bus: two bytes, most significant first.\<close>

definition command_bytes :: "nat \<Rightarrow> u8 list" where
  "command_bytes opcode = [of_nat (opcode div 256), of_nat (opcode mod 256)]"

text \<open>What an accessor call came to.\<close>

fun returned_value :: "outcome \<Rightarrow> double option" where
  "returned_value (Returned v s) = Some v"
| "returned_value (Halted msg s) = None"

fun halt_message :: "outcome \<Rightarrow> string option" where
  "halt_message (Returned v s) = None"
| "halt_message (Halted msg s) = Some msg"

fun final_state :: "outcome \<Rightarrow> sht31" where
  "final_state (Returned v s) = s"
| "final_state (Halted msg s) = s"

text \<open>
  A driver constructed on a bus that answers the coming measurement read with \<open>frame\<close>
  (after the two bytes the constructor's status read takes) and with zeros from then on.
\<close>

definition driver_on :: "u8 list \<Rightarrow> sht31" where
  "driver_on frame = sht31_ctor 0 1 0 0 ([0, 0] @- frame @- sconst 0)"

text \<open>
  The state after the bus traffic of one acquisition: the measurement command, the
  50 ms wait and the six-byte read, before the cached fields are touched.
\<close>

definition after_measurement :: "sht31 \<Rightarrow> sht31" where
  "after_measurement s =
     s\<lparr>trace := trace s @
         [I2C_write (i2c_address s) [0x24, 0x00], Wait_ms 50,
          I2C_read (i2c_address s) (Local_array 6) 6],
       rx := sdrop 6 (rx s)\<rparr>"

text \<open>
  Responses used as examples: the word pair \<open>(0x6000, 0x4000)\<close> and the pair
  \<open>(0xFFFF, 0x0000)\<close> with their checksums, and the first with one checksum byte
  replaced by zero.
\<close>

definition frame_6000_4000 :: "u8 list" where
  "frame_6000_4000 = [0x60, 0x00, 0xD4, 0x40, 0x00, 0x08]"

definition frame_FFFF_0000 :: "u8 list" where
  "frame_FFFF_0000 = [0xFF, 0xFF, 0xAC, 0x00, 0x00, 0x81]"

definition frame_bad_humidity_crc :: "u8 list" where
  "frame_bad_humidity_crc = [0x60, 0x00, 0xD4, 0x40, 0x00, 0x00]"

definition frame_bad_temperature_crc :: "u8 list" where
  "frame_bad_temperature_crc = [0x60, 0x00, 0x00, 0x40, 0x00, 0x08]"

text \<open>
  The bus requests the specification allows: a write is addressed to the 7-bit address
  \<open>0x44\<close> shifted left by one and carries one of the three opcodes soft-reset
  \<open>0x30A2\<close>, read-status \<open>0xF32D\<close> and measurement \<open>0x2400\<close>.
\<close>

fun permitted :: "event \<Rightarrow> bool" where
  "permitted (I2C_write address bytes) =
     (address = push_bit 1 0x44
      \<and> (bytes = command_bytes 0x30A2 \<or> bytes = command_bytes 0xF32D
         \<or> bytes = command_bytes 0x2400))"
| "permitted (I2C_read address buf n) = True"
| "permitted (Wait_ms ms) = True"
section \<open>Double rounding\<close>

lemma real_nat_floor_bounds:
  assumes "1 \<le> (a::real)"
  shows "0 < nat \<lfloor>a\<rfloor>" "real (nat \<lfloor>a\<rfloor>) \<le> a" "a < real (nat \<lfloor>a\<rfloor>) + 1"
proof -
  have "1 \<le> \<lfloor>a\<rfloor>"
    using assms by linarith
  then show "0 < nat \<lfloor>a\<rfloor>"
    by simp
  have "real (nat \<lfloor>a\<rfloor>) = of_int \<lfloor>a\<rfloor>"
    using \<open>1 \<le> \<lfloor>a\<rfloor>\<close> by simp
  then show "real (nat \<lfloor>a\<rfloor>) \<le> a" "a < real (nat \<lfloor>a\<rfloor>) + 1"
    by linarith+
qed

lemma real_nat_ceiling_bounds:
  assumes "1 < (b::real)"
  shows "0 < nat (\<lceil>b\<rceil> - 1)" "real (nat (\<lceil>b\<rceil> - 1)) < b" "b \<le> real (nat (\<lceil>b\<rceil> - 1)) + 1"
proof -
  have c: "2 \<le> \<lceil>b\<rceil>"
    using assms by linarith
  then show "0 < nat (\<lceil>b\<rceil> - 1)"
    by simp
  have "real (nat (\<lceil>b\<rceil> - 1)) = of_int \<lceil>b\<rceil> - 1"
    using c by (simp add: of_nat_nat)
  then show "real (nat (\<lceil>b\<rceil> - 1)) < b" "b \<le> real (nat (\<lceil>b\<rceil> - 1)) + 1"
    by linarith+
qed

lemma floorlog2_bounds_real:
  assumes "0 < n"
  shows "0 < floorlog 2 n" "(2::real) ^ (floorlog 2 n - 1) \<le> real n" "real n + 1 \<le> 2 ^ floorlog 2 n"
proof -
  show "0 < floorlog 2 n"
    using assms by (simp add: floorlog_def)
  have "(2::nat) ^ (floorlog 2 n - 1) \<le> n" and "n + 1 \<le> 2 ^ floorlog 2 n"
    using floorlog_bounds [of n 2] assms by simp_all
  then have "real ((2::nat) ^ (floorlog 2 n - 1)) \<le> real n"
    and "real (n + 1) \<le> real (2 ^ floorlog 2 n)"
    by (simp_all only: of_nat_le_iff)
  then show "(2::real) ^ (floorlog 2 n - 1) \<le> real n" "real n + 1 \<le> 2 ^ floorlog 2 n"
    by simp_all
qed

lemma ilog2_lower:
  assumes "x \<noteq> 0"
  shows "2 powi (ilog2 x) \<le> \<bar>x\<bar>"
proof (cases "1 \<le> \<bar>x\<bar>")
  case True
  define n where "n = nat \<lfloor>\<bar>x\<bar>\<rfloor>"
  note n = real_nat_floor_bounds [OF True, folded n_def]
  note fl = floorlog2_bounds_real [OF n(1)]
  have "ilog2 x = int (floorlog 2 n - 1)"
    using True fl(1) by (simp add: ilog2_def n_def of_nat_diff)
  then have "2 powi (ilog2 x) = (2::real) ^ (floorlog 2 n - 1)"
    by simp
  then show ?thesis
    using n(2) fl(2) by linarith
next
  case False
  define m where "m = nat (\<lceil>1 / \<bar>x\<bar>\<rceil> - 1)"
  have a: "0 < \<bar>x\<bar>" "\<bar>x\<bar> < 1"
    using assms False by auto
  then have "1 < 1 / \<bar>x\<bar>"
    by simp
  note m = real_nat_ceiling_bounds [OF this, folded m_def]
  note fl = floorlog2_bounds_real [OF m(1)]
  have "1 / \<bar>x\<bar> \<le> 2 ^ floorlog 2 m"
    using m(3) fl(3) by linarith
  then have "1 / 2 ^ floorlog 2 m \<le> \<bar>x\<bar>"
    using a by (simp add: field_simps)
  moreover have "ilog2 x = - int (floorlog 2 m)"
    using False by (simp add: ilog2_def m_def)
  ultimately show ?thesis
    by (simp add: power_int_minus_divide)
qed

lemma ilog2_upper:
  assumes "x \<noteq> 0"
  shows "\<bar>x\<bar> < 2 powi (ilog2 x + 1)"
proof (cases "1 \<le> \<bar>x\<bar>")
  case True
  define n where "n = nat \<lfloor>\<bar>x\<bar>\<rfloor>"
  note n = real_nat_floor_bounds [OF True, folded n_def]
  note fl = floorlog2_bounds_real [OF n(1)]
  have "ilog2 x + 1 = int (floorlog 2 n)"
    using True fl(1) by (simp add: ilog2_def n_def)
  then have "2 powi (ilog2 x + 1) = (2::real) ^ floorlog 2 n"
    by simp
  then show ?thesis
    using n(3) fl(3) by linarith
next
  case False
  define m where "m = nat (\<lceil>1 / \<bar>x\<bar>\<rceil> - 1)"
  have a: "0 < \<bar>x\<bar>" "\<bar>x\<bar> < 1"
    using assms False by auto
  then have "1 < 1 / \<bar>x\<bar>"
    by simp
  note m = real_nat_ceiling_bounds [OF this, folded m_def]
  note fl = floorlog2_bounds_real [OF m(1)]
  have "2 ^ (floorlog 2 m - 1) < 1 / \<bar>x\<bar>"
    using m(2) fl(2) by linarith
  then have "\<bar>x\<bar> < 1 / 2 ^ (floorlog 2 m - 1)"
    using a by (simp add: field_simps)
  moreover have "ilog2 x + 1 = - int (floorlog 2 m - 1)"
    using False fl(1) by (simp add: ilog2_def m_def of_nat_diff)
  ultimately show ?thesis
    by (simp add: power_int_minus_divide)
qed

lemma round_half_even_error: "\<bar>of_int (round_half_even y) - y\<bar> \<le> 1 / 2"
  unfolding round_half_even_def by (simp; linarith)

lemma round_half_even_of_int: "round_half_even (of_int k) = k"
  by (simp add: round_half_even_def)

lemma ulp_of_pos: "0 < ulp_of x"
  by (simp add: ulp_of_def)

lemma round_double_error: "\<bar>round_double x - x\<bar> \<le> ulp_of x / 2"
proof (cases "x = 0")
  case True
  then show ?thesis using ulp_of_pos [of 0] by (simp add: round_double_def)
next
  case False
  define u where "u = ulp_of x"
  define k where "k = round_half_even (x / u)"
  have u: "0 < u"
    by (simp add: u_def ulp_of_pos)
  have "of_int k * u - x = (of_int k - x / u) * u"
    using u by (simp add: field_simps)
  then have "\<bar>of_int k * u - x\<bar> = \<bar>of_int k - x / u\<bar> * u"
    using u by (simp add: abs_mult)
  also have "\<dots> \<le> 1 / 2 * u"
    using round_half_even_error [of "x / u"] u
    unfolding k_def by (intro mult_right_mono) auto
  finally show ?thesis
    using False by (simp add: round_double_def u_def k_def)
qed

section \<open>Promotions and truncations\<close>

lemma high_bit_promoted: "uint8_to_int crc AND 0x80 \<noteq> 0 \<longleftrightarrow> bit crc 7"
proof -
  have "(0x80 :: c_int) = 2 ^ 7" by simp
  then have "uint8_to_int crc AND 0x80 = 0 \<longleftrightarrow> \<not> bit (uint8_to_int crc) 7"
    by (simp only: and_exp_eq_0_iff_not_bit)
  then show ?thesis
    by (simp add: uint8_to_int_def bit_simps)
qed

lemma ucast_byte_inj: "(ucast (a::u8) :: c_int) = ucast (b::u8) \<longleftrightarrow> a = b"
proof
  assume h: "(ucast a :: c_int) = ucast b"
  show "a = b"
  proof (rule bit_word_eqI)
    fix n
    assume n: "n < LENGTH(8)"
    have "bit a n = bit (ucast a :: c_int) n"
      using n by (simp add: bit_simps)
    also have "\<dots> = bit (ucast b :: c_int) n"
      by (simp only: h)
    also have "\<dots> = bit b n"
      using n by (simp add: bit_simps)
    finally show "bit a n = bit b n" .
  qed
qed simp

lemma promoted_neq_iff: "char_to_int a \<noteq> uint8_to_int b \<longleftrightarrow> a \<noteq> b"
  by (simp add: char_to_int_def uint8_to_int_def ucast_byte_inj)

lemma unat_word16_of_bytes:
  "unat (int_to_uint16 (push_bit 8 (char_to_int a) OR char_to_int b)) = 256 * unat a + unat b"
proof -
  have "int_to_uint16 (push_bit 8 (char_to_int a) OR char_to_int b) = (word_cat a b :: u16)"
    unfolding int_to_uint16_def char_to_int_def
    by (rule bit_word_eqI) (auto simp: bit_simps dest: bit_imp_le_length)
  also have "\<dots> = push_bit 8 (ucast a) + ucast b"
    by (simp add: word_cat_eq)
  finally have "unat (int_to_uint16 (push_bit 8 (char_to_int a) OR char_to_int b))
      = unat (push_bit 8 (ucast a :: u16) + ucast b)"
    by simp
  also have "\<dots> = 256 * unat a + unat b"
  proof -
    have a: "unat a < 256" and b: "unat b < 256"
      using unsigned_less [of a, where ?'a = nat] unsigned_less [of b, where ?'a = nat] by simp_all
    have 1: "unat (ucast a :: u16) = unat a" "unat (ucast b :: u16) = unat b"
      using a b by (simp_all add: unsigned_ucast_eq take_bit_eq_mod)
    have 2: "unat (push_bit 8 (ucast a :: u16)) = 256 * unat a"
      using a by (simp add: push_bit_eq_mult unat_word_ariths 1)
    show ?thesis
      using a b by (simp add: unat_word_ariths 1 2)
  qed
  finally show ?thesis .
qed

lemma ucast_push_bit_promoted:
  "(ucast (push_bit k (ucast crc :: c_int)) :: u8) = push_bit k (crc :: u8)"
  by (rule bit_word_eqI) (auto simp: bit_simps)

lemma ucast_push_bit_xor_promoted:
  "(ucast (push_bit k (ucast crc :: c_int) XOR ucast p) :: u8) = push_bit k (crc :: u8) XOR (p :: u8)"
  by (rule bit_word_eqI) (auto simp: bit_simps)

lemma crc8_shift_eq:
  "crc8_shift crc = (if bit crc 7 then push_bit 1 crc XOR 0x31 else push_bit 1 crc)"
  unfolding crc8_shift_def int_to_uint8_def POLYNOMIAL_def
  by (simp only: high_bit_promoted [unfolded uint8_to_int_def] ucast_push_bit_promoted
      ucast_push_bit_xor_promoted uint8_to_int_def)

lemma xor_promoted: "int_to_uint8 (uint8_to_int a XOR uint8_to_int b) = a XOR b"
  unfolding int_to_uint8_def uint8_to_int_def
  by (rule bit_word_eqI) (auto simp: bit_simps)

lemma write_command_bytes:
  "unat (int_to_char (drop_bit 8 (uint16_to_int cmd))) = unat cmd div 256"
  "unat (int_to_char (uint16_to_int cmd AND 0xFF)) = unat cmd mod 256"
proof -
  have n: "unat cmd < 65536"
    using unsigned_less [of cmd, where ?'a = nat] by simp
  have up: "unat (ucast cmd :: c_int) = unat cmd"
    using n by (simp add: unsigned_ucast_eq take_bit_eq_mod)
  have "unat (drop_bit 8 (ucast cmd :: c_int)) = unat cmd div 256"
    by (simp add: drop_bit_eq_div unat_div up)
  moreover have "unat cmd div 256 < 256"
    using n by simp
  ultimately show "unat (int_to_char (drop_bit 8 (uint16_to_int cmd))) = unat cmd div 256"
    unfolding int_to_char_def uint16_to_int_def
    by (simp add: unsigned_ucast_eq take_bit_eq_mod)
  have m: "(0xFF::nat) = mask 8"
    by (simp add: mask_eq_exp_minus_1)
  have "unat (ucast cmd AND 0xFF :: c_int) = unat cmd AND 0xFF"
    by (simp add: unsigned_and_eq up)
  also have "\<dots> = unat cmd mod 256"
    by (simp only: m flip: take_bit_eq_mask) (simp add: take_bit_eq_mod)
  finally show "unat (int_to_char (uint16_to_int cmd AND 0xFF)) = unat cmd mod 256"
    unfolding int_to_char_def uint16_to_int_def
    by (simp add: unsigned_ucast_eq take_bit_eq_mod)
qed

section \<open>Error bounds of the conversions\<close>

lemma ilog2_less:
  assumes "x \<noteq> 0" and "\<bar>x\<bar> < 2 ^ k"
  shows "ilog2 x < int k"
proof (rule ccontr)
  assume "\<not> ilog2 x < int k"
  then have "(2::real) powi int k \<le> 2 powi ilog2 x"
    by (intro power_int_increasing) auto
  then have "(2::real) ^ k \<le> \<bar>x\<bar>"
    using ilog2_lower [OF assms(1)] by simp
  with assms(2) show False
    by simp
qed

lemma ulp_of_le:
  assumes "x \<noteq> 0" and "\<bar>x\<bar> < 2 ^ k"
  shows "ulp_of x \<le> 2 powi (int k - 53)"
proof -
  have "max (ilog2 x) (- 1022) - 52 \<le> int k - 53"
    using ilog2_less [OF assms] by simp
  then show ?thesis
    unfolding ulp_of_def by (intro power_int_increasing) auto
qed

lemma round_double_zero: "round_double 0 = 0"
  by (simp add: round_double_def)

lemma round_double_near:
  assumes "\<bar>x\<bar> < 2 ^ k"
  shows "\<bar>round_double x - x\<bar> \<le> 2 powi (int k - 54)"
proof (cases "x = 0")
  case True
  then show ?thesis
    by (simp add: round_double_zero)
next
  case False
  have "\<bar>round_double x - x\<bar> \<le> ulp_of x / 2"
    by (rule round_double_error)
  also have "\<dots> \<le> 2 powi (int k - 53) / 2"
    using ulp_of_le [OF False assms] by simp
  also have "\<dots> = 2 powi (int k - 54)"
    using power_int_diff [of "2::real" "int k - 53" 1] by simp
  finally show ?thesis .
qed

lemma round_double_exact:
  assumes "x = of_int j * ulp_of x"
  shows "round_double x = x"
proof (cases "x = 0")
  case True
  then show ?thesis
    by (simp add: round_double_zero)
next
  case False
  have "x / ulp_of x = of_int j"
    using ulp_of_pos [of x] by (subst assms) simp
  then have "round_half_even (x / ulp_of x) = j"
    by (simp add: round_half_even_of_int)
  then show ?thesis
    using False assms by (simp add: round_double_def)
qed

lemma round_double_of_int:
  assumes "\<bar>m\<bar> < 2 ^ 53"
  shows "round_double (of_int m) = of_int m"
proof (cases "m = 0")
  case True
  then show ?thesis
    by (simp add: round_double_zero)
next
  case False
  define x :: real where "x = of_int m"
  have x: "x \<noteq> 0" "1 \<le> \<bar>x\<bar>" "\<bar>x\<bar> < 2 ^ 53"
    using False assms unfolding x_def
    by (simp_all flip: of_int_abs add: of_int_less_numeral_power_cancel_iff)
  have hi: "ilog2 x < 53"
    using ilog2_less [OF x(1) x(3)] by simp
  have lo: "0 \<le> ilog2 x"
  proof (rule ccontr)
    assume "\<not> 0 \<le> ilog2 x"
    then have "(2::real) powi (ilog2 x + 1) \<le> 2 powi 0"
      by (intro power_int_increasing) auto
    then show False
      using ilog2_upper [OF x(1)] x(2) by simp
  qed
  define d where "d = nat (52 - ilog2 x)"
  have "max (ilog2 x) (- 1022) - 52 = - int d"
    using hi lo by (simp add: d_def)
  then have u: "ulp_of x = 1 / 2 ^ d"
    by (simp add: ulp_of_def power_int_minus_divide)
  have "x = of_int (m * 2 ^ d) * (1 / 2 ^ d)"
    by (simp add: x_def)
  then have "x = of_int (m * 2 ^ d) * ulp_of x"
    unfolding u .
  then show ?thesis
    unfolding x_def [symmetric] by (rule round_double_exact)
qed

lemma round_double_of_nat:
  "n < 2 ^ 53 \<Longrightarrow> round_double (real n) = real n"
  using round_double_of_int [of "int n"] by simp

lemma temperature_double_steps:
  assumes "w < 65536"
  shows "double_mul 175 (real w) = 175 * real w"
    and "\<bar>double_div (175 * real w) 65535 - 175 * real w / 65535\<bar> \<le> 1 / 2 ^ 46"
    and "\<bar>double_div (175 * real w) 65535\<bar> < 176"
proof -
  have "175 * w < 2 ^ 53"
    using assms by simp
  from round_double_of_nat [OF this]
  show "double_mul 175 (real w) = 175 * real w"
    by (simp add: double_mul_def)
  have b: "\<bar>175 * real w / 65535\<bar> < 2 ^ 8"
    using assms by simp
  from round_double_near [OF this]
  show e: "\<bar>double_div (175 * real w) 65535 - 175 * real w / 65535\<bar> \<le> 1 / 2 ^ 46"
    by (simp add: double_div_def power_int_minus_divide)
  have "175 * real w / 65535 \<le> 175"
    using assms by simp
  with e show "\<bar>double_div (175 * real w) 65535\<bar> < 176"
    by (simp add: abs_if split: if_splits)
qed

lemma temperature_C_double_near:
  assumes "w < 65536"
  shows "\<bar>temperature_C_double w - temperature_C w\<bar> \<le> 1 / 2 ^ 45"
proof -
  define q where "q = double_div (175 * real w) 65535"
  note st = temperature_double_steps [OF assms, folded q_def]
  have "\<bar>- 45 + q\<bar> < 2 ^ 8"
    using st(3) by (simp add: abs_if split: if_splits)
  from round_double_near [OF this]
  have a: "\<bar>double_add (- 45) q - (- 45 + q)\<bar> \<le> 1 / 2 ^ 46"
    by (simp add: double_add_def power_int_minus_divide)
  have t: "temperature_C_double w = double_add (- 45) q"
    by (simp add: temperature_C_double_def st(1) q_def)
  have c: "(1::real) / 2 ^ 45 = 1 / 2 ^ 46 + 1 / 2 ^ 46"
    by simp
  show ?thesis
    unfolding temperature_C_def t c using a st(2) by linarith
qed

lemma humidity_pct_double_near:
  assumes "w < 65536"
  shows "\<bar>humidity_pct_double w - humidity_pct w\<bar> \<le> 1 / 2 ^ 47"
proof -
  have "100 * w < 2 ^ 53"
    using assms by simp
  from round_double_of_nat [OF this]
  have m: "double_mul 100 (real w) = 100 * real w"
    by (simp add: double_mul_def)
  have "\<bar>100 * real w / 65535\<bar> < 2 ^ 7"
    using assms by simp
  from round_double_near [OF this]
  show ?thesis
    by (simp add: humidity_pct_double_def humidity_pct_def m double_div_def power_int_minus_divide)
qed

lemma temperature_C_double_boundary:
  "temperature_C_double 0 = - 45" "temperature_C_double 65535 = 130"
proof -
  have "round_double (of_int (- 45)) = of_int (- 45)" "round_double (of_int 130) = of_int 130"
    "round_double (of_int 175) = of_int 175" "round_double (of_int 11468625) = of_int 11468625"
    by (rule round_double_of_int, simp)+
  then show "temperature_C_double 0 = - 45" "temperature_C_double 65535 = 130"
    by (simp_all add: temperature_C_double_def double_add_def double_div_def double_mul_def
        round_double_zero)
qed

lemma humidity_pct_double_boundary:
  "humidity_pct_double 0 = 0" "humidity_pct_double 65535 = 100"
proof -
  have "round_double (of_int 100) = of_int 100" "round_double (of_int 6553500) = of_int 6553500"
    by (rule round_double_of_int, simp)+
  then show "humidity_pct_double 0 = 0" "humidity_pct_double 65535 = 100"
    by (simp_all add: humidity_pct_double_def double_div_def double_mul_def round_double_zero)
qed

lemma conversion_operands_small:
  assumes "w < 65536"
  shows "\<bar>175 * real w\<bar> < 2 ^ 24" "\<bar>double_mul 175 (real w) / 65535\<bar> < 2 ^ 24"
    "\<bar>- 45 + double_div (double_mul 175 (real w)) 65535\<bar> < 2 ^ 24"
    "\<bar>100 * real w\<bar> < 2 ^ 24" "\<bar>double_mul 100 (real w) / 65535\<bar> < 2 ^ 24"
proof -
  note st = temperature_double_steps [OF assms]
  show "\<bar>175 * real w\<bar> < 2 ^ 24" "\<bar>100 * real w\<bar> < 2 ^ 24"
    using assms by simp_all
  show "\<bar>double_mul 175 (real w) / 65535\<bar> < 2 ^ 24"
    using assms by (simp add: st(1))
  show "\<bar>- 45 + double_div (double_mul 175 (real w)) 65535\<bar> < 2 ^ 24"
    using st(3) by (simp add: st(1) abs_if split: if_splits)
  have "100 * w < 2 ^ 53"
    using assms by simp
  from round_double_of_nat [OF this]
  show "\<bar>double_mul 100 (real w) / 65535\<bar> < 2 ^ 24"
    using assms by (simp add: double_mul_def)
qed

lemma round_double_example: "round_double (24576 * 175 / 65535) = 288626206377601 / 4398046511104"
  by code_simp

section \<open>The operations, step by step\<close>

lemma stake_6: "stake 6 t = [t !! 0, t !! 1, t !! 2, t !! 3, t !! 4, t !! 5]"
proof -
  have "stake (Suc (Suc (Suc (Suc (Suc (Suc 0)))))) t = [t !! 0, t !! 1, t !! 2, t !! 3, t !! 4, t !! 5]"
    by (simp add: numeral_eq_Suc)
  then show ?thesis
    by (simp add: numeral_eq_Suc)
qed

lemma stake_length_shift: "length frame = n \<Longrightarrow> stake n (frame @- t) = frame"
  by (simp add: stake_shift)

lemma sdrop_length_shift: "length frame = n \<Longrightarrow> sdrop n (frame @- t) = t"
  by (simp add: sdrop_shift)

lemma crc8_bits_8:
  "crc8_bits 8 crc = (crc8_shift ^^ 8) crc"
proof -
  have "crc8_bits n c = (crc8_shift ^^ n) c" for n c
    by (induction n arbitrary: c) (simp_all add: funpow_swap1)
  then show ?thesis .
qed

lemma crc8_two_bytes: "crc8 (a # b # c # rest) 2 = crc8 [a, b] 2"
  by (simp add: crc8_def numeral_2_eq_2)

lemma write_command_eq:
  "write_command cmd s =
     s\<lparr>trace := trace s @ [I2C_write (i2c_address s) 
        [int_to_char (drop_bit 8 (uint16_to_int cmd)), int_to_char (uint16_to_int cmd AND 0xFF)]]\<rparr>"
  by (simp add: write_command_def i2c_write_def Let_def)

lemma opcode_bytes:
  "int_to_char (drop_bit 8 (uint16_to_int (int_to_uint16 SHT31_MEAS_HIGHREP))) = 0x24"
  "int_to_char (uint16_to_int (int_to_uint16 SHT31_MEAS_HIGHREP) AND 0xFF) = 0x00"
  "int_to_char (drop_bit 8 (uint16_to_int (int_to_uint16 SHT31_SOFTRESET))) = 0x30"
  "int_to_char (uint16_to_int (int_to_uint16 SHT31_SOFTRESET) AND 0xFF) = 0xA2"
  "int_to_char (drop_bit 8 (uint16_to_int (int_to_uint16 SHT31_READSTATUS))) = 0xF3"
  "int_to_char (uint16_to_int (int_to_uint16 SHT31_READSTATUS) AND 0xFF) = 0x2D"
  by (simp_all add: int_to_char_def uint16_to_int_def int_to_uint16_def SHT31_MEAS_HIGHREP_def
      SHT31_SOFTRESET_def SHT31_READSTATUS_def)

lemma wait_ms_eq: "wait_ms ms s = s\<lparr>trace := trace s @ [Wait_ms ms]\<rparr>"
  by (simp add: wait_ms_def)

lemma source_conversions:
  "double_add (- 45)
     (double_div (double_mul (uint16_to_double
        (int_to_uint16 (push_bit 8 (char_to_int a) OR char_to_int b))) 175) 0xFFFF)
   = temperature_C_double (word_of_bytes a b)"
  "double_div (double_mul (uint16_to_double
        (int_to_uint16 (push_bit 8 (char_to_int a) OR char_to_int b))) 100) 0xFFFF
   = humidity_pct_double (word_of_bytes a b)"
  by (simp_all only: uint16_to_double_def unat_word16_of_bytes temperature_C_double_def
      humidity_pct_double_def word_of_bytes_def double_mul_def mult.commute)

lemma promoted_eq_iff: "char_to_int a = uint8_to_int b \<longleftrightarrow> a = b"
  using promoted_neq_iff [of a b] by blast

lemma measurement_io:
  "i2c_read (i2c_address (wait_ms 50 (write_command (int_to_uint16 SHT31_MEAS_HIGHREP) s)))
     (Local_array 6) 6 (wait_ms 50 (write_command (int_to_uint16 SHT31_MEAS_HIGHREP) s))
   = (stake 6 (rx s), after_measurement s)"
  by (simp add: write_command_eq wait_ms_eq i2c_read_def opcode_bytes after_measurement_def)

lemma frame_checks:
  assumes "readbuffer = [b0, b1, b2, b3, b4, b5]"
  shows "crc8 readbuffer 2 = crc8 [b0, b1] 2" "crc8 (drop 3 readbuffer) 2 = crc8 [b3, b4] 2"
  unfolding assms by (simp_all add: crc8_two_bytes)

lemma read_temperature_humidity_eq:
  "read_temperature_humidity s =
     (if temperature_crc_ok (stake 6 (rx s)) \<and> humidity_crc_ok (stake 6 (rx s))
      then (True, (after_measurement s)
              \<lparr>temperature := temperature_C_double (temperature_word_of (stake 6 (rx s))),
               humidity := humidity_pct_double (humidity_word_of (stake 6 (rx s)))\<rparr>)
      else (False, after_measurement s))"
proof -
  define t where "t = rx s"
  have f: "stake 6 t = [t !! 0, t !! 1, t !! 2, t !! 3, t !! 4, t !! 5]"
    by (rule stake_6)
  show ?thesis
    unfolding read_temperature_humidity_def Let_def measurement_io t_def [symmetric] f
    by (simp add: promoted_eq_iff crc8_two_bytes source_conversions temperature_crc_ok_def
        humidity_crc_ok_def temperature_word_of_def humidity_word_of_def)
qed

lemma crc8_bytes_eq_spec:
  "len \<le> length data \<Longrightarrow>
   crc8_bytes data len crc = foldl (\<lambda>r b. (crc8_step_spec ^^ 8) (r XOR b)) crc (take len data)"
proof (induction data len crc rule: crc8_bytes.induct)
  case (1 data crc)
  then show ?case by simp
next
  case (2 data j crc)
  then obtain d ds where d: "data = d # ds"
    by (cases data) auto
  have step: "crc8_shift = crc8_step_spec"
    by (rule ext) (simp add: crc8_shift_eq crc8_step_spec_def)
  show ?case
    using 2 by (simp add: d xor_promoted crc8_bits_8 step)
qed

lemma crc8_vectors:
  "crc8 [0x00, 0x00] 2 = 0x81" "crc8 [0xBE, 0xEF] 2 = 0x92" "crc8 [0xFF, 0xFF] 2 = 0xAC"
  "crc8 [0x60, 0x00] 2 = 0xD4" "crc8 [0x40, 0x00] 2 = 0x08"
  by code_simp+

lemma crc8_check_value:
  "crc8 [0x31, 0x32, 0x33, 0x34, 0x35, 0x36, 0x37, 0x38, 0x39] 9 = 0xF7"
  by code_simp


section \<open>The constructor, the accessors and executions\<close>

lemma sdrop_2: "sdrop 2 t = stl (stl t)"
  by (simp add: numeral_2_eq_2)

lemma read_status_eq:
  "read_status s =
     (None, s\<lparr>trace := trace s @
               [I2C_write (i2c_address s) [0xF3, 0x2D],
                I2C_read (i2c_address s) Uninitialized_pointer 1,
                I2C_read (i2c_address s) Uninitialized_pointer 1],
             rx := sdrop 2 (rx s)\<rparr>)"
  by (simp add: read_status_def Let_def write_command_eq i2c_read_def opcode_bytes sdrop_2)

lemma reset_eq:
  "reset s = s\<lparr>trace := trace s @ [I2C_write (i2c_address s) [0x30, 0xA2], Wait_ms 10]\<rparr>"
  by (simp add: reset_def write_command_eq wait_ms_eq opcode_bytes)

lemma sht31_ctor_eq:
  "sht31_ctor sda scl h0 t0 device =
     \<lparr>i2c_pins = (sda, scl), i2c_address = 0x88, humidity = h0, temperature = t0,
      trace = [I2C_write 0x88 [0x30, 0xA2], Wait_ms 10, I2C_write 0x88 [0xF3, 0x2D],
               I2C_read 0x88 Uninitialized_pointer 1, I2C_read 0x88 Uninitialized_pointer 1],
      rx = sdrop 2 device\<rparr>"
  by (simp add: sht31_ctor_def Let_def reset_eq read_status_eq SHT31_DEFAULT_ADDR_def)

lemma command_bytes_values:
  "command_bytes 0x30A2 = [0x30, 0xA2]" "command_bytes 0xF32D = [0xF3, 0x2D]"
  "command_bytes 0x2400 = [0x24, 0x00]" "command_bytes 0x3041 = [0x30, 0x41]"
  by (simp_all add: command_bytes_def)

lemma driver_on_eq:
  "length frame = 6 \<Longrightarrow>
   driver_on frame =
     \<lparr>i2c_pins = (0, 1), i2c_address = 0x88, humidity = 0, temperature = 0,
      trace = [I2C_write 0x88 [0x30, 0xA2], Wait_ms 10, I2C_write 0x88 [0xF3, 0x2D],
               I2C_read 0x88 Uninitialized_pointer 1, I2C_read 0x88 Uninitialized_pointer 1],
      rx = frame @- sconst 0\<rparr>"
  using sdrop_length_shift [of "[0, 0 :: u8]" 2 "frame @- sconst 0"]
  by (simp add: driver_on_def sht31_ctor_eq)

lemma stake_driver_on: "length frame = 6 \<Longrightarrow> stake 6 (rx (driver_on frame)) = frame"
  by (simp add: driver_on_eq stake_length_shift)

lemma read_temperature_eq:
  "read_temperature s =
     (if temperature_crc_ok (stake 6 (rx s)) \<and> humidity_crc_ok (stake 6 (rx s))
      then Returned (temperature_C_double (temperature_word_of (stake 6 (rx s))))
             ((after_measurement s)
                \<lparr>temperature := temperature_C_double (temperature_word_of (stake 6 (rx s))),
                 humidity := humidity_pct_double (humidity_word_of (stake 6 (rx s)))\<rparr>)
      else Halted ''SHT31 TEMPERATURE CRC FAIL'' (after_measurement s))"
  by (simp add: read_temperature_def read_temperature_humidity_eq hard_fault_def)

lemma read_humidity_eq:
  "read_humidity s =
     (if temperature_crc_ok (stake 6 (rx s)) \<and> humidity_crc_ok (stake 6 (rx s))
      then Returned (humidity_pct_double (humidity_word_of (stake 6 (rx s))))
             ((after_measurement s)
                \<lparr>temperature := temperature_C_double (temperature_word_of (stake 6 (rx s))),
                 humidity := humidity_pct_double (humidity_word_of (stake 6 (rx s)))\<rparr>)
      else Halted ''SHT31 HUMIDITY CRC FAIL'' (after_measurement s))"
  by (simp add: read_humidity_def read_temperature_humidity_eq hard_fault_def)

lemma after_measurement_fields:
  "temperature (after_measurement s) = temperature s"
  "humidity (after_measurement s) = humidity s"
  "i2c_address (after_measurement s) = i2c_address s"
  by (simp_all add: after_measurement_def)

lemma flip_bit_changes_byte: "k < 8 \<Longrightarrow> flip_bit k (x :: u8) \<noteq> x"
proof
  assume k: "k < 8" and eq: "flip_bit k x = x"
  have "bit (flip_bit k x) k \<longleftrightarrow> \<not> bit x k"
    using k by (simp add: bit_flip_bit_iff)
  then show False
    by (simp add: eq)
qed

lemma word_of_bytes_less: "word_of_bytes a b < 65536"
  using unsigned_less [of a, where ?'a = nat] unsigned_less [of b, where ?'a = nat]
  by (simp add: word_of_bytes_def)

lemma frame_words_less:
  "temperature_word_of frame < 65536" "humidity_word_of frame < 65536"
  by (simp_all add: temperature_word_of_def humidity_word_of_def word_of_bytes_less)

lemma frame_with_byte2:
  assumes "length frame = 6"
  shows "temperature_crc_ok (frame[2 := x]) \<longleftrightarrow> x = crc8 [frame ! 0, frame ! 1] 2"
  using assms by (simp add: temperature_crc_ok_def)

lemma frame_with_byte5:
  assumes "length frame = 6"
  shows "humidity_crc_ok (frame[5 := x]) \<longleftrightarrow> x = crc8 [frame ! 3, frame ! 4] 2"
  using assms by (simp add: humidity_crc_ok_def)

lemma acquisition_ok_iff:
  "fst (read_temperature_humidity s) \<longleftrightarrow>
     temperature_crc_ok (stake 6 (rx s)) \<and> humidity_crc_ok (stake 6 (rx s))"
  by (simp add: read_temperature_humidity_eq)

lemma acquisition_on_frame:
  assumes "length frame = 6"
  shows "fst (read_temperature_humidity (s\<lparr>rx := frame @- rest\<rparr>)) \<longleftrightarrow>
     temperature_crc_ok frame \<and> humidity_crc_ok frame"
  using assms by (simp add: acquisition_ok_iff stake_length_shift)

lemma frame_6000_4000_facts:
  "length frame_6000_4000 = 6"
  "frame_6000_4000 ! 2 = crc8 [frame_6000_4000 ! 0, frame_6000_4000 ! 1] 2"
  "frame_6000_4000 ! 5 = crc8 [frame_6000_4000 ! 3, frame_6000_4000 ! 4] 2"
  "temperature_word_of frame_6000_4000 = 0x6000"
  "humidity_word_of frame_6000_4000 = 0x4000"
  by (simp_all add: frame_6000_4000_def crc8_vectors temperature_word_of_def
      humidity_word_of_def word_of_bytes_def)

lemma frame_bad_humidity_crc_facts:
  "length frame_bad_humidity_crc = 6"
  "temperature_crc_ok frame_bad_humidity_crc"
  "\<not> humidity_crc_ok frame_bad_humidity_crc"
  by (simp_all add: frame_bad_humidity_crc_def crc8_vectors temperature_crc_ok_def
      humidity_crc_ok_def)

lemma frame_bad_temperature_crc_facts:
  "length frame_bad_temperature_crc = 6"
  "\<not> temperature_crc_ok frame_bad_temperature_crc"
  "humidity_crc_ok frame_bad_temperature_crc"
  by (simp_all add: frame_bad_temperature_crc_def crc8_vectors temperature_crc_ok_def
      humidity_crc_ok_def)

lemma frame_FFFF_0000_facts:
  "length frame_FFFF_0000 = 6"
  "temperature_crc_ok frame_FFFF_0000"
  "humidity_crc_ok frame_FFFF_0000"
  "temperature_word_of frame_FFFF_0000 = 65535"
  "humidity_word_of frame_FFFF_0000 = 0"
  by (simp_all add: frame_FFFF_0000_def crc8_vectors temperature_crc_ok_def
      humidity_crc_ok_def temperature_word_of_def humidity_word_of_def word_of_bytes_def)

lemma frame_6000_4000_ok:
  "temperature_crc_ok frame_6000_4000" "humidity_crc_ok frame_6000_4000"
  using frame_6000_4000_facts(2,3) by (simp_all add: temperature_crc_ok_def humidity_crc_ok_def)

lemma round_double_examples:
  "round_double (4300800 / 65535) = 288626206377601 / 4398046511104"
  "round_double (- 45 + 288626206377601 / 4398046511104) = 90714113377921 / 4398046511104"
  "round_double (1638400 / 65535) = 7036981793587225 / 281474976710656"
  by code_simp+

lemma conversions_6000_4000:
  "temperature_C_double 0x6000 = 90714113377921 / 4398046511104"
  "humidity_pct_double 0x4000 = 7036981793587225 / 281474976710656"
proof -
  have m: "double_mul 175 24576 = 4300800" "double_mul 100 16384 = 1638400"
    using round_double_of_nat [of 4300800] round_double_of_nat [of 1638400]
    by (simp_all add: double_mul_def)
  show "temperature_C_double 0x6000 = 90714113377921 / 4398046511104"
    unfolding temperature_C_double_def of_nat_numeral m double_div_def double_add_def
      round_double_examples ..
  show "humidity_pct_double 0x4000 = 7036981793587225 / 281474976710656"
    unfolding humidity_pct_double_def of_nat_numeral m double_div_def round_double_examples ..
qed

lemma accessors_on_driver_6000_4000:
  "read_temperature (driver_on frame_6000_4000) =
     Returned (90714113377921 / 4398046511104)
       ((after_measurement (driver_on frame_6000_4000))
          \<lparr>temperature := 90714113377921 / 4398046511104,
           humidity := 7036981793587225 / 281474976710656\<rparr>)"
  "read_humidity (driver_on frame_6000_4000) =
     Returned (7036981793587225 / 281474976710656)
       ((after_measurement (driver_on frame_6000_4000))
          \<lparr>temperature := 90714113377921 / 4398046511104,
           humidity := 7036981793587225 / 281474976710656\<rparr>)"
  by (simp_all add: read_temperature_eq read_humidity_eq stake_driver_on frame_6000_4000_facts
      frame_6000_4000_ok conversions_6000_4000)

lemma permitted_after_measurement:
  assumes "i2c_address s = 0x88" and "list_all permitted (trace s)"
  shows "list_all permitted (trace (after_measurement s))"
  using assms by (simp add: after_measurement_def command_bytes_values)

lemma do_call_invariant:
  assumes "i2c_address s = 0x88" and "list_all permitted (trace s)"
  shows "i2c_address (final_state (do_call c s)) = 0x88
         \<and> list_all permitted (trace (final_state (do_call c s)))"
proof -
  have t: "trace ((after_measurement s)\<lparr>temperature := a, humidity := b\<rparr>)
             = trace (after_measurement s)" for a b
    by simp
  show ?thesis
    using permitted_after_measurement [OF assms] assms(1)
    by (cases c) (simp_all add: read_temperature_eq read_humidity_eq after_measurement_fields)
qed

lemma run_invariant:
  "i2c_address s = 0x88 \<Longrightarrow> list_all permitted (trace s) \<Longrightarrow>
   list_all permitted (trace (run calls s))"
proof (induction calls arbitrary: s)
  case Nil
  then show ?case by simp
next
  case (Cons c calls)
  note inv = do_call_invariant [OF Cons.prems, of c]
  show ?case
  proof (cases "do_call c s")
    case (Returned v s')
    then show ?thesis
      using inv Cons.IH [of s'] by simp
  next
    case (Halted msg s')
    then show ?thesis
      using inv by simp
  qed
qed

lemma trace_do_call:
  "trace (final_state (do_call c s)) =
     trace s @ [I2C_write (i2c_address s) [0x24, 0x00], Wait_ms 50,
                I2C_read (i2c_address s) (Local_array 6) 6]"
  by (cases c) (simp_all add: read_temperature_eq read_humidity_eq after_measurement_def)

lemma trace_run_prefix: "\<exists>more. trace (run calls s) = trace s @ more"
proof (induction calls arbitrary: s)
  case Nil
  then show ?case by simp
next
  case (Cons c calls)
  show ?case
  proof (cases "do_call c s")
    case (Returned v s')
    then have "trace s' = trace s @ [I2C_write (i2c_address s) [0x24, 0x00], Wait_ms 50,
                I2C_read (i2c_address s) (Local_array 6) 6]"
      using trace_do_call [of c s] by simp
    moreover obtain more where "trace (run calls s') = trace s' @ more"
      using Cons.IH [of s'] by blast
    ultimately show ?thesis
      using Returned by simp
  next
    case (Halted msg s')
    then show ?thesis
      using trace_do_call [of c s] by simp
  qed
qed

lemma trace_run_first_call:
  "\<exists>more. trace (run (c # calls) s) =
     trace s @ [I2C_write (i2c_address s) [0x24, 0x00], Wait_ms 50,
                I2C_read (i2c_address s) (Local_array 6) 6] @ more"
proof (cases "do_call c s")
  case (Returned v s')
  then have "trace s' = trace s @ [I2C_write (i2c_address s) [0x24, 0x00], Wait_ms 50,
                I2C_read (i2c_address s) (Local_array 6) 6]"
    using trace_do_call [of c s] by simp
  moreover obtain more where "trace (run calls s') = trace s' @ more"
    using trace_run_prefix [of calls s'] by blast
  ultimately show ?thesis
    using Returned by simp
next
  case (Halted msg s')
  then show ?thesis
    using trace_do_call [of c s] by simp
qed

lemma write_command_msb_first:
  "write_command cmd s =
     s\<lparr>trace := trace s @ [I2C_write (i2c_address s) (command_bytes (unat cmd))]\<rparr>"
proof -
  have "of_nat (unat (int_to_char (drop_bit 8 (uint16_to_int cmd)))) = (of_nat (unat cmd div 256) :: u8)"
    and "of_nat (unat (int_to_char (uint16_to_int cmd AND 0xFF))) = (of_nat (unat cmd mod 256) :: u8)"
    by (simp_all only: write_command_bytes)
  then have "int_to_char (drop_bit 8 (uint16_to_int cmd)) = of_nat (unat cmd div 256)"
    and "int_to_char (uint16_to_int cmd AND 0xFF) = of_nat (unat cmd mod 256)"
    by simp_all
  then show ?thesis
    by (simp only: write_command_eq command_bytes_def)
qed
section \<open>The checksum\<close>

text \<open>
  Claim C1. \<open>crc8\<close> computes the CRC-8 of the specification (polynomial \<open>0x31\<close>,
  initial register \<open>0xFF\<close>, most significant bit first, no final XOR, no reflection):
  on the first \<open>len\<close> bytes of its input it returns what the specification's
  register procedure returns, and for the two zero bytes the result is \<open>0x81\<close>, which
  is not zero.
\<close>

theorem crc8_refines_spec:
  assumes "len \<le> length data"
  shows "crc8 data len = crc8_spec (take len data)
         \<and> crc8 [0x00, 0x00] 2 = 0x81 \<and> crc8 [0x00, 0x00] 2 \<noteq> 0"
proof -
  have "crc8 data len = crc8_spec (take len data)"
    using crc8_bytes_eq_spec [OF assms, of "0xFF"] by (simp add: crc8_def crc8_spec_def)
  moreover have "crc8 [0x00, 0x00] 2 = 0x81"
    by (rule crc8_vectors)
  ultimately show ?thesis
    by simp
qed

theorem crc8_refines_spec_witness:
  "(2::nat) \<le> length [0xBE, 0xEF :: u8]
   \<and> crc8 [0xBE, 0xEF] 2 = crc8_spec [0xBE, 0xEF] \<and> crc8_spec [0xBE, 0xEF] = 0x92"
proof -
  have len: "(2::nat) \<le> length [0xBE, 0xEF :: u8]"
    by simp
  have "crc8 [0xBE, 0xEF] 2 = crc8_spec (take 2 [0xBE, 0xEF])"
    using crc8_refines_spec [OF len] by blast
  then have "crc8 [0xBE, 0xEF] 2 = crc8_spec [0xBE, 0xEF]"
    by simp
  moreover have "crc8 [0xBE, 0xEF] 2 = 0x92"
    by (rule crc8_vectors)
  ultimately show ?thesis
    using len by simp
qed

section \<open>Acquisition and the two checksums\<close>

text \<open>
  Claim C2. For the six bytes the bus delivers to an acquisition,
  \<open>read_temperature_humidity\<close> returns true exactly when byte 2 is the \<open>crc8\<close> of
  bytes 0 and 1 and byte 5 is the \<open>crc8\<close> of bytes 3 and 4. So when a response is
  valid, the same response with any one bit of byte 2, or of byte 5, flipped makes it
  return false.
\<close>

theorem acquisition_succeeds_iff_checksums_match:
  assumes "frame = stake 6 (rx s)"
  shows "(fst (read_temperature_humidity s) \<longleftrightarrow>
            frame ! 2 = crc8 [frame ! 0, frame ! 1] 2 \<and> frame ! 5 = crc8 [frame ! 3, frame ! 4] 2)
         \<and> (frame ! 2 = crc8 [frame ! 0, frame ! 1] 2 \<and> frame ! 5 = crc8 [frame ! 3, frame ! 4] 2
              \<longrightarrow> (\<forall>k<8.
                     \<not> fst (read_temperature_humidity
                             (s\<lparr>rx := frame[2 := flip_bit k (frame ! 2)] @- sdrop 6 (rx s)\<rparr>))
                   \<and> \<not> fst (read_temperature_humidity
                             (s\<lparr>rx := frame[5 := flip_bit k (frame ! 5)] @- sdrop 6 (rx s)\<rparr>))))"
proof -
  have len: "length frame = 6"
    by (simp add: assms)
  have iff: "fst (read_temperature_humidity s) \<longleftrightarrow>
      frame ! 2 = crc8 [frame ! 0, frame ! 1] 2 \<and> frame ! 5 = crc8 [frame ! 3, frame ! 4] 2"
    unfolding assms acquisition_ok_iff temperature_crc_ok_def humidity_crc_ok_def ..
  have flips: "\<not> fst (read_temperature_humidity
                    (s\<lparr>rx := frame[2 := flip_bit k (frame ! 2)] @- rest\<rparr>))
             \<and> \<not> fst (read_temperature_humidity
                    (s\<lparr>rx := frame[5 := flip_bit k (frame ! 5)] @- rest\<rparr>))"
    if ok: "frame ! 2 = crc8 [frame ! 0, frame ! 1] 2" "frame ! 5 = crc8 [frame ! 3, frame ! 4] 2"
      and k: "k < 8" for k rest
  proof -
    have "\<not> temperature_crc_ok (frame[2 := flip_bit k (frame ! 2)])"
      using flip_bit_changes_byte [OF k, of "frame ! 2"] ok(1)
      by (simp add: frame_with_byte2 [OF len])
    moreover have "\<not> humidity_crc_ok (frame[5 := flip_bit k (frame ! 5)])"
      using flip_bit_changes_byte [OF k, of "frame ! 5"] ok(2)
      by (simp add: frame_with_byte5 [OF len])
    ultimately show ?thesis
      using len by (simp add: acquisition_on_frame)
  qed
  show ?thesis
    using iff flips by blast
qed

theorem acquisition_succeeds_iff_checksums_match_witness:
  "fst (read_temperature_humidity (driver_on frame_6000_4000))
   \<and> \<not> fst (read_temperature_humidity
             ((driver_on frame_6000_4000)
                \<lparr>rx := frame_6000_4000[2 := flip_bit 3 (frame_6000_4000 ! 2)]
                        @- sdrop 6 (rx (driver_on frame_6000_4000))\<rparr>))
   \<and> \<not> fst (read_temperature_humidity
             ((driver_on frame_6000_4000)
                \<lparr>rx := frame_6000_4000[5 := flip_bit 3 (frame_6000_4000 ! 5)]
                        @- sdrop 6 (rx (driver_on frame_6000_4000))\<rparr>))"
proof -
  have fr: "frame_6000_4000 = stake 6 (rx (driver_on frame_6000_4000))"
    by (simp add: stake_driver_on frame_6000_4000_facts)
  have k: "(3::nat) < 8"
    by simp
  show ?thesis
    using acquisition_succeeds_iff_checksums_match [OF fr] frame_6000_4000_facts(2,3) k
    by blast
qed

section \<open>Both cached fields or neither\<close>

text \<open>
  Claim C3. Whatever the state before and whatever six bytes arrive: when
  \<open>read_temperature_humidity\<close> returns false, the cached temperature and the cached
  humidity are what they were; when it returns true, both hold the values converted
  from the response. In particular, when the temperature checksum passes and the
  humidity checksum fails, it returns false and the cached temperature is unchanged.
\<close>

theorem acquisition_updates_both_or_neither:
  assumes "frame = stake 6 (rx s)" and "read_temperature_humidity s = (ok, s')"
  shows "(\<not> ok \<longrightarrow> temperature s' = temperature s \<and> humidity s' = humidity s)
         \<and> (ok \<longrightarrow> temperature s' = temperature_C_double (temperature_word_of frame)
                  \<and> humidity s' = humidity_pct_double (humidity_word_of frame))
         \<and> (temperature_crc_ok frame \<and> \<not> humidity_crc_ok frame
              \<longrightarrow> \<not> ok \<and> temperature s' = temperature s)"
  using assms(2) unfolding assms(1) read_temperature_humidity_eq
  by (auto simp: after_measurement_fields split: if_splits)

theorem acquisition_updates_both_or_neither_witness:
  "\<not> fst (read_temperature_humidity
           ((driver_on frame_bad_humidity_crc)\<lparr>temperature := 21, humidity := 40\<rparr>))
   \<and> temperature (snd (read_temperature_humidity
           ((driver_on frame_bad_humidity_crc)\<lparr>temperature := 21, humidity := 40\<rparr>))) = 21
   \<and> humidity (snd (read_temperature_humidity
           ((driver_on frame_bad_humidity_crc)\<lparr>temperature := 21, humidity := 40\<rparr>))) = 40"
proof -
  define s where "s = (driver_on frame_bad_humidity_crc)\<lparr>temperature := 21, humidity := 40\<rparr>"
  have fr: "frame_bad_humidity_crc = stake 6 (rx s)"
    by (simp add: s_def stake_driver_on frame_bad_humidity_crc_facts)
  have r: "read_temperature_humidity s
           = (fst (read_temperature_humidity s), snd (read_temperature_humidity s))"
    by simp
  have prior: "temperature s = 21" "humidity s = 40"
    by (simp_all add: s_def)
  show ?thesis
    using acquisition_updates_both_or_neither [OF fr r] frame_bad_humidity_crc_facts(2,3) prior
    unfolding s_def [symmetric] by auto
qed

section \<open>The conversion formulas\<close>

text \<open>
  Claim C4. After a successful acquisition the cached values are the conversion
  formulas applied to the big-endian words \<open>tw\<close> and \<open>hw\<close> of the response:
  \<open>-45 + 175 * tw / 65535\<close> and \<open>100 * hw / 65535\<close>, computed in double arithmetic,
  hence within \<open>2 ^ -45\<close> and \<open>2 ^ -47\<close> of the exact values. The word \<open>0x0000\<close>
  gives exactly -45 and 0, the word \<open>0xFFFF\<close> exactly 130 and 100.
\<close>

theorem successful_acquisition_caches_conversions:
  assumes "frame = stake 6 (rx s)" and "read_temperature_humidity s = (True, s')"
    and "tw = 256 * unat (frame ! 0) + unat (frame ! 1)"
    and "hw = 256 * unat (frame ! 3) + unat (frame ! 4)"
  shows "temperature s' = temperature_C_double tw
         \<and> \<bar>temperature s' - temperature_C tw\<bar> \<le> 1 / 2 ^ 45
         \<and> humidity s' = humidity_pct_double hw
         \<and> \<bar>humidity s' - humidity_pct hw\<bar> \<le> 1 / 2 ^ 47
         \<and> (tw = 0x0000 \<longrightarrow> temperature s' = - 45)
         \<and> (tw = 0xFFFF \<longrightarrow> temperature s' = 130)
         \<and> (hw = 0x0000 \<longrightarrow> humidity s' = 0)
         \<and> (hw = 0xFFFF \<longrightarrow> humidity s' = 100)"
proof -
  have w: "tw = temperature_word_of frame" "hw = humidity_word_of frame"
    by (simp_all add: assms(3,4) temperature_word_of_def humidity_word_of_def word_of_bytes_def)
  have t: "temperature s' = temperature_C_double tw" and h: "humidity s' = humidity_pct_double hw"
    using assms(2) unfolding assms(1) read_temperature_humidity_eq w
    by (auto split: if_splits)
  have lt: "tw < 65536" "hw < 65536"
    by (simp_all add: w frame_words_less)
  show ?thesis
    using temperature_C_double_near [OF lt(1)] humidity_pct_double_near [OF lt(2)]
      temperature_C_double_boundary humidity_pct_double_boundary
    by (auto simp: t h)
qed

theorem successful_acquisition_caches_conversions_witness:
  "fst (read_temperature_humidity (driver_on frame_FFFF_0000))
   \<and> temperature (snd (read_temperature_humidity (driver_on frame_FFFF_0000))) = 130
   \<and> humidity (snd (read_temperature_humidity (driver_on frame_FFFF_0000))) = 0"
proof -
  define s where "s = driver_on frame_FFFF_0000"
  have fr: "frame_FFFF_0000 = stake 6 (rx s)"
    by (simp add: s_def stake_driver_on frame_FFFF_0000_facts)
  have ok: "fst (read_temperature_humidity s)"
    unfolding acquisition_ok_iff fr [symmetric] by (simp add: frame_FFFF_0000_facts)
  then have r: "read_temperature_humidity s = (True, snd (read_temperature_humidity s))"
    by (cases "read_temperature_humidity s") simp
  have tw: "(65535::nat) = 256 * unat (frame_FFFF_0000 ! 0) + unat (frame_FFFF_0000 ! 1)"
    and hw: "(0::nat) = 256 * unat (frame_FFFF_0000 ! 3) + unat (frame_FFFF_0000 ! 4)"
    by (simp_all add: frame_FFFF_0000_def)
  show ?thesis
    using successful_acquisition_caches_conversions [OF fr r tw hw] ok
    unfolding s_def [symmetric] by simp
qed

section \<open>Round trip at the public interface\<close>

text \<open>
  Claim C5. For every response whose two checksum bytes are correct, acquisition
  succeeds, \<open>read_temperature\<close> returns without halting the value of
  \<open>-45 + 175 * tw / 65535\<close> and \<open>read_humidity\<close> the value of \<open>100 * hw / 65535\<close>,
  both computed in double arithmetic and so within \<open>2 ^ -45\<close> and \<open>2 ^ -47\<close> of the
  exact values. For the word pair \<open>(0x6000, 0x4000)\<close> these are approximately 20.63
  and 25.0, to half a unit of the last digit printed.
\<close>

theorem round_trip_at_public_interface:
  assumes "frame = stake 6 (rx s)"
    and "frame ! 2 = crc8 [frame ! 0, frame ! 1] 2"
    and "frame ! 5 = crc8 [frame ! 3, frame ! 4] 2"
    and "tw = 256 * unat (frame ! 0) + unat (frame ! 1)"
    and "hw = 256 * unat (frame ! 3) + unat (frame ! 4)"
  shows "fst (read_temperature_humidity s)
         \<and> halt_message (read_temperature s) = None
         \<and> returned_value (read_temperature s) = Some (temperature_C_double tw)
         \<and> \<bar>temperature_C_double tw - temperature_C tw\<bar> \<le> 1 / 2 ^ 45
         \<and> halt_message (read_humidity s) = None
         \<and> returned_value (read_humidity s) = Some (humidity_pct_double hw)
         \<and> \<bar>humidity_pct_double hw - humidity_pct hw\<bar> \<le> 1 / 2 ^ 47
         \<and> (tw = 0x6000 \<and> hw = 0x4000 \<longrightarrow>
               \<bar>temperature_C_double tw - 2063 / 100\<bar> \<le> 5 / 1000
             \<and> \<bar>humidity_pct_double hw - 25\<bar> \<le> 5 / 100)"
proof -
  have w: "temperature_word_of frame = tw" "humidity_word_of frame = hw"
    by (simp_all add: assms(4,5) temperature_word_of_def humidity_word_of_def word_of_bytes_def)
  have ok: "temperature_crc_ok (stake 6 (rx s))" "humidity_crc_ok (stake 6 (rx s))"
    using assms(2,3) unfolding assms(1) temperature_crc_ok_def humidity_crc_ok_def by simp_all
  have lt: "tw < 65536" "hw < 65536"
    using frame_words_less [of frame] by (simp_all add: w)
  have acc: "fst (read_temperature_humidity s)"
    "halt_message (read_temperature s) = None"
    "returned_value (read_temperature s) = Some (temperature_C_double tw)"
    "halt_message (read_humidity s) = None"
    "returned_value (read_humidity s) = Some (humidity_pct_double hw)"
    using ok w unfolding assms(1)
    by (simp_all add: acquisition_ok_iff read_temperature_eq read_humidity_eq)
  have ex: "\<bar>temperature_C_double tw - 2063 / 100\<bar> \<le> 5 / 1000
            \<and> \<bar>humidity_pct_double hw - 25\<bar> \<le> 5 / 100"
    if "tw = 0x6000" "hw = 0x4000"
    unfolding that conversions_6000_4000 by simp
  show ?thesis
    using acc temperature_C_double_near [OF lt(1)] humidity_pct_double_near [OF lt(2)] ex
    by blast
qed

theorem round_trip_at_public_interface_witness:
  "fst (read_temperature_humidity (driver_on frame_6000_4000))
   \<and> returned_value (read_temperature (driver_on frame_6000_4000))
       = Some (temperature_C_double 0x6000)
   \<and> returned_value (read_humidity (driver_on frame_6000_4000))
       = Some (humidity_pct_double 0x4000)
   \<and> \<bar>temperature_C_double 0x6000 - 2063 / 100\<bar> \<le> 5 / 1000
   \<and> \<bar>humidity_pct_double 0x4000 - 25\<bar> \<le> 5 / 100"
proof -
  have fr: "frame_6000_4000 = stake 6 (rx (driver_on frame_6000_4000))"
    by (simp add: stake_driver_on frame_6000_4000_facts)
  have tw: "(0x6000::nat) = 256 * unat (frame_6000_4000 ! 0) + unat (frame_6000_4000 ! 1)"
    and hw: "(0x4000::nat) = 256 * unat (frame_6000_4000 ! 3) + unat (frame_6000_4000 ! 4)"
    by (simp_all add: frame_6000_4000_def)
  show ?thesis
    using round_trip_at_public_interface [OF fr frame_6000_4000_facts(2,3) tw hw]
    by simp
qed

text \<open>
  The specification gives the temperature for the word \<open>0x6000\<close> as
  approximately 20.66. The value returned is 20.6260013733..., further than 0.03 from
  20.66.
\<close>

theorem round_trip_20_66_counterexample:
  "returned_value (read_temperature (driver_on frame_6000_4000))
     = Some (90714113377921 / 4398046511104)
   \<and> (3 / 100 :: real) < \<bar>90714113377921 / 4398046511104 - 2066 / 100\<bar>"
  by (simp add: accessors_on_driver_6000_4000)

section \<open>The fatal-error message\<close>

text \<open>
  Claim C6. The message of a halting accessor names the accessor that was called: the
  acquisition routine reports one boolean and each accessor has one message. Whenever
  either checksum of the response fails, \<open>read_temperature\<close> halts with
  \<open>SHT31 TEMPERATURE CRC FAIL\<close> and \<open>read_humidity\<close> halts with
  \<open>SHT31 HUMIDITY CRC FAIL\<close>.
\<close>

theorem halt_message_names_accessor:
  assumes "frame = stake 6 (rx s)"
    and "frame ! 2 \<noteq> crc8 [frame ! 0, frame ! 1] 2 \<or> frame ! 5 \<noteq> crc8 [frame ! 3, frame ! 4] 2"
  shows "halt_message (read_temperature s) = Some ''SHT31 TEMPERATURE CRC FAIL''
         \<and> halt_message (read_humidity s) = Some ''SHT31 HUMIDITY CRC FAIL''"
  using assms(2) unfolding assms(1)
  by (auto simp: read_temperature_eq read_humidity_eq temperature_crc_ok_def humidity_crc_ok_def)

theorem halt_message_names_accessor_witness:
  "frame_bad_temperature_crc ! 2
     \<noteq> crc8 [frame_bad_temperature_crc ! 0, frame_bad_temperature_crc ! 1] 2
   \<and> frame_bad_temperature_crc ! 5
       = crc8 [frame_bad_temperature_crc ! 3, frame_bad_temperature_crc ! 4] 2
   \<and> halt_message (read_temperature (driver_on frame_bad_temperature_crc))
       = Some ''SHT31 TEMPERATURE CRC FAIL''
   \<and> halt_message (read_humidity (driver_on frame_bad_temperature_crc))
       = Some ''SHT31 HUMIDITY CRC FAIL''"
proof -
  have fr: "frame_bad_temperature_crc = stake 6 (rx (driver_on frame_bad_temperature_crc))"
    by (simp add: stake_driver_on frame_bad_temperature_crc_facts)
  have bad: "frame_bad_temperature_crc ! 2
     \<noteq> crc8 [frame_bad_temperature_crc ! 0, frame_bad_temperature_crc ! 1] 2"
    and good: "frame_bad_temperature_crc ! 5
       = crc8 [frame_bad_temperature_crc ! 3, frame_bad_temperature_crc ! 4] 2"
    using frame_bad_temperature_crc_facts(2,3)
    by (simp_all add: temperature_crc_ok_def humidity_crc_ok_def)
  show ?thesis
    using halt_message_names_accessor [OF fr disjI1 [OF bad]] bad good by simp
qed

text \<open>
  The specification has the message name the quantity whose checksum
  failed. On a response whose temperature checksum is right and whose humidity checksum
  is wrong, \<open>read_temperature\<close> halts with the temperature message.
\<close>

theorem halt_message_counterexample:
  "halt_message (read_temperature (driver_on frame_bad_humidity_crc))
     = Some ''SHT31 TEMPERATURE CRC FAIL''
   \<and> frame_bad_humidity_crc ! 2
       = crc8 [frame_bad_humidity_crc ! 0, frame_bad_humidity_crc ! 1] 2
   \<and> frame_bad_humidity_crc ! 5
       \<noteq> crc8 [frame_bad_humidity_crc ! 3, frame_bad_humidity_crc ! 4] 2"
  using frame_bad_humidity_crc_facts
  by (simp add: read_temperature_eq stake_driver_on temperature_crc_ok_def humidity_crc_ok_def)

section \<open>Construction\<close>

text \<open>
  Claim C7. The requests of every construction are the soft reset \<open>0x30A2\<close>, a wait
  of 10 ms, the read-status opcode \<open>0xF32D\<close> and two one-byte reads: the status is
  read, and the clear-status opcode \<open>0x3041\<close> is not sent to any address.
\<close>

theorem constructor_resets_and_reads_status:
  "trace (sht31_ctor sda scl h0 t0 device) =
     [I2C_write (push_bit 1 0x44) (command_bytes 0x30A2), Wait_ms 10,
      I2C_write (push_bit 1 0x44) (command_bytes 0xF32D),
      I2C_read (push_bit 1 0x44) Uninitialized_pointer 1,
      I2C_read (push_bit 1 0x44) Uninitialized_pointer 1]
   \<and> (\<forall>address. I2C_write address (command_bytes 0x3041)
          \<notin> set (trace (sht31_ctor sda scl h0 t0 device)))"
  by (simp add: sht31_ctor_eq command_bytes_values)

text \<open>
  The specification has a status clear at construction, that is the clear-status
  opcode among the commands the constructor sends. It is not, for instance on a bus
  that delivers zeros.
\<close>

theorem constructor_clear_status_counterexample:
  "I2C_write (push_bit 1 0x44) (command_bytes 0x3041) \<notin> set (trace (sht31_ctor 0 1 0 0 (sconst 0)))"
  by (simp add: sht31_ctor_eq command_bytes_values)

section \<open>The opcodes on the bus\<close>

text \<open>
  Claim C8. In every execution, a construction followed by any sequence of calls of
  the two accessors (ending at the first fatal error), every bus write is addressed to
  \<open>0x44\<close> shifted left by one and carries, as two bytes with the most significant
  first, one of the opcodes \<open>0x30A2\<close>, \<open>0xF32D\<close> and \<open>0x2400\<close>. The first two occur
  in every execution and the third as soon as an accessor is called. \<open>write_command\<close>
  sends any opcode as two bytes, the most significant first.
\<close>

theorem only_three_opcodes_on_the_bus:
  "(\<forall>e \<in> set (trace (run calls (sht31_ctor sda scl h0 t0 device))). permitted e)
   \<and> I2C_write (push_bit 1 0x44) (command_bytes 0x30A2)
       \<in> set (trace (run calls (sht31_ctor sda scl h0 t0 device)))
   \<and> I2C_write (push_bit 1 0x44) (command_bytes 0xF32D)
       \<in> set (trace (run calls (sht31_ctor sda scl h0 t0 device)))
   \<and> (calls \<noteq> [] \<longrightarrow>
         I2C_write (push_bit 1 0x44) (command_bytes 0x2400)
           \<in> set (trace (run calls (sht31_ctor sda scl h0 t0 device))))
   \<and> write_command cmd s0 =
       s0\<lparr>trace := trace s0 @ [I2C_write (i2c_address s0) (command_bytes (unat cmd))]\<rparr>"
proof -
  define s where "s = sht31_ctor sda scl h0 t0 device"
  have a: "i2c_address s = 0x88"
    and t: "trace s = [I2C_write 0x88 [0x30, 0xA2], Wait_ms 10, I2C_write 0x88 [0xF3, 0x2D],
               I2C_read 0x88 Uninitialized_pointer 1, I2C_read 0x88 Uninitialized_pointer 1]"
    by (simp_all add: s_def sht31_ctor_eq)
  have p: "list_all permitted (trace s)"
    by (simp add: t command_bytes_values)
  have 1: "\<forall>e \<in> set (trace (run calls s)). permitted e"
    using run_invariant [OF a p, of calls] by (simp add: list_all_iff)
  obtain more where m: "trace (run calls s) = trace s @ more"
    using trace_run_prefix [of calls s] by blast
  have 2: "I2C_write (push_bit 1 0x44) (command_bytes 0x30A2) \<in> set (trace (run calls s))"
    "I2C_write (push_bit 1 0x44) (command_bytes 0xF32D) \<in> set (trace (run calls s))"
    by (simp_all add: m t command_bytes_values)
  have 3: "I2C_write (push_bit 1 0x44) (command_bytes 0x2400) \<in> set (trace (run calls s))"
    if ne: "calls \<noteq> []"
  proof -
    obtain c cs where "calls = c # cs"
      using ne by (cases calls) auto
    then obtain more' where "trace (run calls s) =
       trace s @ [I2C_write (i2c_address s) [0x24, 0x00], Wait_ms 50,
                I2C_read (i2c_address s) (Local_array 6) 6] @ more'"
      using trace_run_first_call [of c cs s] by blast
    then show ?thesis
      by (simp add: a command_bytes_values)
  qed
  show ?thesis
    using 1 2 3 write_command_msb_first [of cmd s0] unfolding s_def by blast
qed

theorem only_three_opcodes_on_the_bus_witness:
  "permitted (I2C_write 0x88 [0x24, 0x00])
   \<and> I2C_write 0x88 [0x24, 0x00]
       \<in> set (trace (run [Call_read_temperature, Call_read_humidity]
                         (sht31_ctor 0 1 0 0 (sconst 0))))
   \<and> \<not> permitted (I2C_write 0x88 [0x30, 0x41])"
proof -
  have ne: "[Call_read_temperature, Call_read_humidity] \<noteq> []"
    by simp
  note th = only_three_opcodes_on_the_bus
    [of "[Call_read_temperature, Call_read_humidity]" 0 1 0 0 "sconst 0"]
  have "I2C_write 0x88 [0x24, 0x00]
       \<in> set (trace (run [Call_read_temperature, Call_read_humidity]
                         (sht31_ctor 0 1 0 0 (sconst 0))))"
    using th ne by (simp add: command_bytes_values)
  moreover from this have "permitted (I2C_write 0x88 [0x24, 0x00])"
    using th by blast
  moreover have "\<not> permitted (I2C_write 0x88 [0x30, 0x41])"
    by (simp add: command_bytes_values)
  ultimately show ?thesis
    by blast
qed

section \<open>Each accessor updates both fields\<close>

text \<open>
  Claim C9. A call of \<open>read_temperature\<close> that returns has also overwritten the cached
  humidity with the value converted from the same response, and a call of
  \<open>read_humidity\<close> that returns has also overwritten the cached temperature.
\<close>

theorem accessors_update_both_fields:
  assumes "frame = stake 6 (rx s)"
  shows "(read_temperature s = Returned v s' \<longrightarrow>
            v = temperature s'
          \<and> temperature s' = temperature_C_double (temperature_word_of frame)
          \<and> humidity s' = humidity_pct_double (humidity_word_of frame))
       \<and> (read_humidity s = Returned v s' \<longrightarrow>
            v = humidity s'
          \<and> humidity s' = humidity_pct_double (humidity_word_of frame)
          \<and> temperature s' = temperature_C_double (temperature_word_of frame))"
  unfolding assms read_temperature_eq read_humidity_eq
  by (auto split: if_splits)

theorem accessors_update_both_fields_witness:
  "humidity (driver_on frame_6000_4000) = 0
   \<and> humidity (final_state (read_temperature (driver_on frame_6000_4000)))
       = 7036981793587225 / 281474976710656
   \<and> temperature (driver_on frame_6000_4000) = 0
   \<and> temperature (final_state (read_humidity (driver_on frame_6000_4000)))
       = 90714113377921 / 4398046511104"
proof -
  have fr: "frame_6000_4000 = stake 6 (rx (driver_on frame_6000_4000))"
    by (simp add: stake_driver_on frame_6000_4000_facts)
  note acc = accessors_on_driver_6000_4000
  have "humidity (final_state (read_temperature (driver_on frame_6000_4000)))
          = humidity_pct_double (humidity_word_of frame_6000_4000)"
    using accessors_update_both_fields [OF fr, THEN conjunct1, rule_format, OF acc(1)]
    by (simp add: acc(1))
  moreover have "temperature (final_state (read_humidity (driver_on frame_6000_4000)))
          = temperature_C_double (temperature_word_of frame_6000_4000)"
    using accessors_update_both_fields [OF fr, THEN conjunct2, rule_format, OF acc(2)]
    by (simp add: acc(2))
  ultimately show ?thesis
    by (simp add: frame_6000_4000_facts conversions_6000_4000 driver_on_eq)
qed

section \<open>The status read\<close>

text \<open>
  Claim C10. \<open>read_status\<close> hands the pointer \<open>val\<close>, which was never assigned, to both
  bus reads as the receive buffer and reads \<open>*val\<close> after each: the status word it
  returns is built from no determinate bytes, whatever the bus delivers. Every
  construction ends with this status read.
\<close>

theorem read_status_through_uninitialized_pointer:
  "fst (read_status s) = None
   \<and> trace (snd (read_status s)) =
       trace s @ [I2C_write (i2c_address s) (command_bytes 0xF32D),
                  I2C_read (i2c_address s) Uninitialized_pointer 1,
                  I2C_read (i2c_address s) Uninitialized_pointer 1]
   \<and> deref Uninitialized_pointer (stake 1 (rx s)) = None
   \<and> drop 2 (trace (sht31_ctor sda scl h0 t0 device)) =
       [I2C_write (push_bit 1 0x44) (command_bytes 0xF32D),
        I2C_read (push_bit 1 0x44) Uninitialized_pointer 1,
        I2C_read (push_bit 1 0x44) Uninitialized_pointer 1]"
  by (simp add: read_status_eq sht31_ctor_eq command_bytes_values)

end
